theory Spec2Isabelle
  imports Complex_Main
begin

section \<open>folly/experimental/AutoTimer.h\<close>

text \<open>
  A shallow embedding of \<^verbatim>\<open>folly::AutoTimer\<close>, its factory \<^verbatim>\<open>makeAutoTimer\<close> and the
  default logger \<^verbatim>\<open>GoogleLogger\<close>.

  \<^item> A time point of the clock is the number of seconds since the clock's epoch that it
    stands for, a \<^typ>\<open>real\<close>, whatever the representation of the clock's durations.
  \<^item> A \<^verbatim>\<open>double\<close> is the real number it stands for; infinities and NaN are not modelled.
    What \<^verbatim>\<open>std::chrono::duration_cast<std::chrono::duration<double>>(now - start_).count()\<close>
    yields is declared outside this header and depends on the clock: it is the parameter
    \<open>duration_cast\<close>, applied to \<open>now\<close> and \<open>start_\<close>. It need not be the exact difference
    of the two: the subtraction in the clock's duration type and the conversion to
    \<^verbatim>\<open>double\<close> seconds may round.
  \<^item> The template parameters \<^verbatim>\<open>Clock\<close> and \<^verbatim>\<open>Logger\<close> are parameters of the model. Both
    act on an environment \<open>'u\<close> (the reading of a fake clock, the lines a log sink holds,
    ...) and both may throw.
  \<^item> A call either returns a value and a state, throws an exception in a state, or
    ends the program (\<^verbatim>\<open>std::terminate\<close>).
\<close>

subsection \<open>Outcomes of a call\<close>

datatype ('a, 'e, 's) result =
    Ok 'a 's
  | Thrown 'e 's
  | Terminate

text \<open>\<^verbatim>\<open>Clock::now()\<close>: a sample of the clock. It may change the environment (a clock
  that ticks when read) and it may throw.\<close>

type_synonym ('u, 'e) Clock = "'u \<Rightarrow> (real, 'e, 'u) result"

text \<open>\<^verbatim>\<open>Logger::operator()(StringPiece, double)\<close>: the effect of the logger on the
  environment. State that a logger object carries is part of the environment.\<close>

type_synonym ('u, 'e) Logger = "string \<Rightarrow> real \<Rightarrow> 'u \<Rightarrow> (unit, 'e, 'u) result"

subsection \<open>The default logger\<close>

datatype GoogleLoggerStyle = SECONDS | PRETTY

text \<open>
  \<^verbatim>\<open>GoogleLogger<Style>::operator()\<close>. Three things it uses are declared outside this
  header and are parameters here: \<open>LOG_INFO\<close>, what glog's \<^verbatim>\<open>LOG(INFO)\<close> does with a
  finished line; \<open>prettyPrint_time\<close>, folly's \<^verbatim>\<open>prettyPrint(sec, PrettyType::PRETTY_TIME)\<close>;
  and \<open>show_double\<close>, the stream output of a \<^verbatim>\<open>double\<close>.
\<close>

definition GoogleLogger ::
  "(string \<Rightarrow> 'u \<Rightarrow> (unit, 'e, 'u) result) \<Rightarrow> (real \<Rightarrow> string) \<Rightarrow> (real \<Rightarrow> string) \<Rightarrow>
   GoogleLoggerStyle \<Rightarrow> ('u, 'e) Logger" where
  "GoogleLogger LOG_INFO prettyPrint_time show_double Style msg sec w =
     (if msg = [] then Ok () w
      else if Style = PRETTY then LOG_INFO (msg @ '' in '' @ prettyPrint_time sec) w
      else LOG_INFO (msg @ '' in '' @ show_double sec @ '' seconds'') w)"

subsection \<open>The timer\<close>

text \<open>The data members of \<^verbatim>\<open>AutoTimer\<close>, in declaration order: \<^verbatim>\<open>destructionMessage_\<close>,
  \<^verbatim>\<open>start_\<close>, \<^verbatim>\<open>minTimeToLog_\<close>, \<^verbatim>\<open>logger_\<close>.\<close>

record ('u, 'e) AutoTimer =
  destructionMessage :: string
  start :: real
  minTimeToLog :: real
  logger :: "('u, 'e) Logger"

text \<open>
  The constructor. The default member initialiser \<^verbatim>\<open>start_ = Clock::now()\<close> is the one
  call it makes; the three arguments are stored.
\<close>

definition AutoTimer_ctor ::
  "('u, 'e) Clock \<Rightarrow> string \<Rightarrow> real \<Rightarrow> ('u, 'e) Logger \<Rightarrow> 'u \<Rightarrow>
   (('u, 'e) AutoTimer, 'e, 'u) result" where
  "AutoTimer_ctor clock msg minTimetoLog lg w =
     (case clock w of
        Ok t w' \<Rightarrow>
          Ok \<lparr>destructionMessage = msg, start = t, minTimeToLog = minTimetoLog, logger = lg\<rparr> w'
      | Thrown e w' \<Rightarrow> Thrown e w'
      | Terminate \<Rightarrow> Terminate)"

text \<open>The default arguments \<^verbatim>\<open>msg = ""\<close> and \<^verbatim>\<open>minTimetoLog = 0.0\<close>. The third default,
  \<^verbatim>\<open>Logger()\<close>, is whatever logger the caller's \<^verbatim>\<open>Logger\<close> type constructs by default and
  stays an argument.\<close>

definition AutoTimer_ctor_msg ::
  "('u, 'e) Clock \<Rightarrow> string \<Rightarrow> ('u, 'e) Logger \<Rightarrow> 'u \<Rightarrow> (('u, 'e) AutoTimer, 'e, 'u) result" where
  "AutoTimer_ctor_msg clock msg lg w = AutoTimer_ctor clock msg 0 lg w"

definition AutoTimer_ctor_default ::
  "('u, 'e) Clock \<Rightarrow> ('u, 'e) Logger \<Rightarrow> 'u \<Rightarrow> (('u, 'e) AutoTimer, 'e, 'u) result" where
  "AutoTimer_ctor_default clock lg w = AutoTimer_ctor clock [] 0 lg w"

text \<open>
  \<^verbatim>\<open>logImpl(now, msg)\<close>. The state of a member function is the object together with the
  environment. An exception leaves before \<^verbatim>\<open>start_\<close> is assigned, so the object it leaves
  behind is the object it found. \<open>duration\<close> is the \<^verbatim>\<open>double\<close> the cast yields, and it is
  this value that is compared with \<^verbatim>\<open>minTimeToLog_\<close>, passed to the logger and returned.
\<close>

definition logImpl ::
  "(real \<Rightarrow> real \<Rightarrow> real) \<Rightarrow> ('u, 'e) Clock \<Rightarrow> real \<Rightarrow> string \<Rightarrow> ('u, 'e) AutoTimer \<Rightarrow> 'u \<Rightarrow>
   (real, 'e, ('u, 'e) AutoTimer \<times> 'u) result" where
  "logImpl duration_cast clock now msg T w =
     (let duration = duration_cast now (start T) in
      case (if duration \<ge> minTimeToLog T then logger T msg duration w else Ok () w) of
        Ok _ w1 \<Rightarrow>
          (case clock w1 of
             Ok t w2 \<Rightarrow> Ok duration (T\<lparr>start := t\<rparr>, w2)
           | Thrown e w2 \<Rightarrow> Thrown e (T, w2)
           | Terminate \<Rightarrow> Terminate)
      | Thrown e w1 \<Rightarrow> Thrown e (T, w1)
      | Terminate \<Rightarrow> Terminate)"

text \<open>\<^verbatim>\<open>double log(StringPiece msg = "")\<close>.\<close>

definition log_msg ::
  "(real \<Rightarrow> real \<Rightarrow> real) \<Rightarrow> ('u, 'e) Clock \<Rightarrow> string \<Rightarrow> ('u, 'e) AutoTimer \<Rightarrow> 'u \<Rightarrow>
   (real, 'e, ('u, 'e) AutoTimer \<times> 'u) result" where
  "log_msg duration_cast clock msg T w =
     (case clock w of
        Ok now w1 \<Rightarrow> logImpl duration_cast clock now msg T w1
      | Thrown e w1 \<Rightarrow> Thrown e (T, w1)
      | Terminate \<Rightarrow> Terminate)"

text \<open>
  \<^verbatim>\<open>template <typename... Args> double log(Args&&... args)\<close> and \<^verbatim>\<open>logFormat\<close>. Both
  sample the clock first, build the message, and call \<^verbatim>\<open>logImpl\<close>. The builders
  \<^verbatim>\<open>folly::to<std::string>\<close> and \<^verbatim>\<open>folly::format(...).str()\<close> are declared outside this
  header and are parameters here. A builder takes time and may throw, so it acts on the
  environment as the clock and the logger do.
\<close>

definition log_args ::
  "(real \<Rightarrow> real \<Rightarrow> real) \<Rightarrow> ('u, 'e) Clock \<Rightarrow>
   ('args \<Rightarrow> 'u \<Rightarrow> (string, 'e, 'u) result) \<Rightarrow> 'args \<Rightarrow>
   ('u, 'e) AutoTimer \<Rightarrow> 'u \<Rightarrow> (real, 'e, ('u, 'e) AutoTimer \<times> 'u) result" where
  "log_args duration_cast clock to_string args T w =
     (case clock w of
        Ok now w1 \<Rightarrow>
          (case to_string args w1 of
             Ok msg w2 \<Rightarrow> logImpl duration_cast clock now msg T w2
           | Thrown e w2 \<Rightarrow> Thrown e (T, w2)
           | Terminate \<Rightarrow> Terminate)
      | Thrown e w1 \<Rightarrow> Thrown e (T, w1)
      | Terminate \<Rightarrow> Terminate)"

definition logFormat ::
  "(real \<Rightarrow> real \<Rightarrow> real) \<Rightarrow> ('u, 'e) Clock \<Rightarrow>
   ('args \<Rightarrow> 'u \<Rightarrow> (string, 'e, 'u) result) \<Rightarrow> 'args \<Rightarrow>
   ('u, 'e) AutoTimer \<Rightarrow> 'u \<Rightarrow> (real, 'e, ('u, 'e) AutoTimer \<times> 'u) result" where
  "logFormat duration_cast clock format_str args T w =
     (case clock w of
        Ok now w1 \<Rightarrow>
          (case format_str args w1 of
             Ok msg w2 \<Rightarrow> logImpl duration_cast clock now msg T w2
           | Thrown e w2 \<Rightarrow> Thrown e (T, w2)
           | Terminate \<Rightarrow> Terminate)
      | Thrown e w1 \<Rightarrow> Thrown e (T, w1)
      | Terminate \<Rightarrow> Terminate)"

text \<open>
  The destructor, \<^verbatim>\<open>~AutoTimer() { log(destructionMessage_); }\<close>. It tests no flag: it
  reports whenever it runs. (Overload resolution sends a \<^verbatim>\<open>std::string\<close> argument to the
  variadic \<^verbatim>\<open>log\<close>, whose builder returns a single string as it is; lemma \<open>log_args_pure\<close>
  below shows that this is \<open>log_msg\<close>.)

  The destructor has no exception specification of its own. It is therefore \<^verbatim>\<open>noexcept\<close>
  exactly if the destructors of its members are, that is, unless the \<^verbatim>\<open>Logger\<close> type
  declares its destructor \<^verbatim>\<open>noexcept(false)\<close>: the parameter \<open>dtor_noexcept\<close> says which.
  An exception that leaves \<^verbatim>\<open>log\<close> ends the program (\<^verbatim>\<open>std::terminate\<close>) when it is, and
  leaves the destructor when it is not. What the destructor of the logger itself does is
  not modelled.
\<close>

definition AutoTimer_dtor ::
  "(real \<Rightarrow> real \<Rightarrow> real) \<Rightarrow> bool \<Rightarrow> ('u, 'e) Clock \<Rightarrow> ('u, 'e) AutoTimer \<Rightarrow> 'u \<Rightarrow>
   (unit, 'e, 'u) result" where
  "AutoTimer_dtor duration_cast dtor_noexcept clock T w =
     (case log_msg duration_cast clock (destructionMessage T) T w of
        Ok _ (_, w') \<Rightarrow> Ok () w'
      | Thrown e (_, w') \<Rightarrow> if dtor_noexcept then Terminate else Thrown e w'
      | Terminate \<Rightarrow> Terminate)"

text \<open>
  The move constructor, \<^verbatim>\<open>AutoTimer(AutoTimer&&) = default\<close>: member by member.
  \<^verbatim>\<open>destructionMessage_\<close> is a \<^verbatim>\<open>const std::string\<close>, which a move copies; \<^verbatim>\<open>start_\<close> and
  \<^verbatim>\<open>minTimeToLog_\<close> are copied; \<^verbatim>\<open>logger_\<close> is moved by the move constructor of the \<^verbatim>\<open>Logger\<close>
  type, the parameter \<open>Logger_move\<close>, which gives the new logger and what is left of the
  old one. The result is the new object and the moved-from object. (The defaulted move
  assignment is deleted, the member being constant; there is nothing of it to model.)
\<close>

definition AutoTimer_move ::
  "(('u, 'e) Logger \<Rightarrow> ('u, 'e) Logger \<times> ('u, 'e) Logger) \<Rightarrow> ('u, 'e) AutoTimer \<Rightarrow>
   ('u, 'e) AutoTimer \<times> ('u, 'e) AutoTimer" where
  "AutoTimer_move Logger_move T =
     (let (lg_new, lg_old) = Logger_move (logger T) in
      (\<lparr>destructionMessage = destructionMessage T, start = start T,
        minTimeToLog = minTimeToLog T, logger = lg_new\<rparr>,
       T\<lparr>logger := lg_old\<rparr>))"

text \<open>\<^verbatim>\<open>makeAutoTimer\<close> returns the temporary it constructs; the compiler builds it in
  the caller's object (copy elision), so no move and no destructor runs.\<close>

definition makeAutoTimer ::
  "('u, 'e) Clock \<Rightarrow> string \<Rightarrow> real \<Rightarrow> ('u, 'e) Logger \<Rightarrow> 'u \<Rightarrow>
   (('u, 'e) AutoTimer, 'e, 'u) result" where
  "makeAutoTimer clock msg minTime lg w = AutoTimer_ctor clock msg minTime lg w"

subsection \<open>The end of a scope\<close>

text \<open>
  When a block is left, by \<^verbatim>\<open>return\<close> or by an exception that unwinds it, the objects it
  owns are destroyed, the one constructed last first. \<open>destroy\<close> runs the destructors of a
  list of timers in list order. When a destructor throws, the objects still to be
  destroyed are destroyed while that exception unwinds the block, and an exception that
  leaves a destructor during unwinding ends the program.
\<close>

fun destroy ::
  "(real \<Rightarrow> real \<Rightarrow> real) \<Rightarrow> bool \<Rightarrow> ('u, 'e) Clock \<Rightarrow> ('u, 'e) AutoTimer list \<Rightarrow> 'u \<Rightarrow>
   (unit, 'e, 'u) result" where
  "destroy duration_cast dtor_noexcept clock [] w = Ok () w"
| "destroy duration_cast dtor_noexcept clock (T # Ts) w =
     (case AutoTimer_dtor duration_cast dtor_noexcept clock T w of
        Ok _ w' \<Rightarrow> destroy duration_cast dtor_noexcept clock Ts w'
      | Thrown e w' \<Rightarrow>
          (case destroy duration_cast dtor_noexcept clock Ts w' of
             Ok _ w'' \<Rightarrow> Thrown e w''
           | Thrown _ _ \<Rightarrow> Terminate
           | Terminate \<Rightarrow> Terminate)
      | Terminate \<Rightarrow> Terminate)"

text \<open>
  \<open>end_of_scope duration_cast dtor_noexcept clock r\<close>: the body of the block has left it
  as \<open>r\<close> says, by returning (at its end or early) or by throwing, with the timers of the
  block in the state it gave them.
\<close>

definition end_of_scope ::
  "(real \<Rightarrow> real \<Rightarrow> real) \<Rightarrow> bool \<Rightarrow> ('u, 'e) Clock \<Rightarrow>
   ('a, 'e, ('u, 'e) AutoTimer list \<times> 'u) result \<Rightarrow> ('a, 'e, 'u) result" where
  "end_of_scope duration_cast dtor_noexcept clock r =
     (case r of
        Ok a (Ts, w) \<Rightarrow>
          (case destroy duration_cast dtor_noexcept clock Ts w of
             Ok _ w' \<Rightarrow> Ok a w'
           | Thrown e w' \<Rightarrow> Thrown e w'
           | Terminate \<Rightarrow> Terminate)
      | Thrown e (Ts, w) \<Rightarrow>
          (case destroy duration_cast dtor_noexcept clock Ts w of
             Ok _ w' \<Rightarrow> Thrown e w'
           | Thrown _ _ \<Rightarrow> Terminate
           | Terminate \<Rightarrow> Terminate)
      | Terminate \<Rightarrow> Terminate)"

subsection \<open>Clocks and loggers to observe a timer with\<close>

text \<open>
  To say that a logger was or was not called, the logger is wrapped in one that writes
  down each call, with its arguments, before it hands them on: \<open>capturing lg\<close> behaves as
  \<open>lg\<close> on the part \<open>env\<close> of the environment and appends to \<open>calls\<close>. The clock is lifted
  to the extended environment and leaves \<open>calls\<close> alone.
\<close>

record 'u observed =
  calls :: "(string \<times> real) list"
  env :: 'u

definition capturing :: "('u, 'e) Logger \<Rightarrow> ('u observed, 'e) Logger" where
  "capturing lg msg sec c =
     (case lg msg sec (env c) of
        Ok _ u \<Rightarrow> Ok () \<lparr>calls = calls c @ [(msg, sec)], env = u\<rparr>
      | Thrown e u \<Rightarrow> Thrown e \<lparr>calls = calls c @ [(msg, sec)], env = u\<rparr>
      | Terminate \<Rightarrow> Terminate)"

definition observed_clock :: "('u, 'e) Clock \<Rightarrow> ('u observed, 'e) Clock" where
  "observed_clock clock c =
     (case clock (env c) of
        Ok t u \<Rightarrow> Ok t \<lparr>calls = calls c, env = u\<rparr>
      | Thrown e u \<Rightarrow> Thrown e \<lparr>calls = calls c, env = u\<rparr>
      | Terminate \<Rightarrow> Terminate)"

text \<open>A fake clock: the environment is its reading, which only the test (or a logger
  or message builder that takes time) changes. Exceptions are strings.\<close>

definition fake_clock :: "(real, string) Clock" where
  "fake_clock t = Ok t t"

text \<open>Two casts. \<open>exact_cast\<close> is the cast of a clock between whose readings the
  difference is a \<^verbatim>\<open>double\<close>, as it is between the readings used below: small multiples
  of a quarter. \<open>quarter_cast\<close> rounds the difference to the nearest quarter of a second, a
  coarse stand-in for a cast that rounds.\<close>

definition exact_cast :: "real \<Rightarrow> real \<Rightarrow> real" where
  "exact_cast now start_time = now - start_time"

definition quarter_cast :: "real \<Rightarrow> real \<Rightarrow> real" where
  "quarter_cast now start_time = of_int \<lfloor>(now - start_time) * 4 + 1/2\<rfloor> / 4"

text \<open>A clock that can be read while it shows less than \<open>limit\<close> and throws from
  then on.\<close>

definition fading_clock :: "real \<Rightarrow> (real, string) Clock" where
  "fading_clock limit t = (if t < limit then Ok t t else Thrown ''clock unavailable'' t)"

text \<open>Loggers over the fake clock: one that takes no time, one that takes \<open>d\<close> seconds,
  one that throws.\<close>

definition silent_logger :: "(real, string) Logger" where
  "silent_logger msg sec t = Ok () t"

definition slow_logger :: "real \<Rightarrow> (real, string) Logger" where
  "slow_logger d msg sec t = Ok () (t + d)"

definition failing_logger :: "(real, string) Logger" where
  "failing_logger msg sec t = Thrown ''sink unavailable'' t"

text \<open>A message builder that concatenates its arguments, as \<^verbatim>\<open>folly::to<std::string>\<close>
  does with strings, and leaves the environment alone: it takes no time.\<close>

definition concat_args :: "string list \<Rightarrow> 'u \<Rightarrow> (string, 'e, 'u) result" where
  "concat_args args w = Ok (concat args) w"

text \<open>A message builder that concatenates its arguments and takes \<open>d\<close> seconds.\<close>

definition slow_concat :: "real \<Rightarrow> string list \<Rightarrow> real \<Rightarrow> (string, string, real) result" where
  "slow_concat d args t = Ok (concat args) (t + d)"

text \<open>The move constructor of a logger type that is trivially copyable, as the empty
  \<^verbatim>\<open>GoogleLogger\<close> is: both objects are the logger that was there.\<close>

definition trivial_move :: "('u, 'e) Logger \<Rightarrow> ('u, 'e) Logger \<times> ('u, 'e) Logger" where
  "trivial_move lg = (lg, lg)"

section \<open>The default logger and empty messages\<close>

text \<open>
  C7. For every elapsed value and for both styles, the default logger given an empty
  message returns without calling \<^verbatim>\<open>LOG(INFO)\<close>: the environment, and with it the log
  sink, is what it was, whatever \<^verbatim>\<open>LOG(INFO)\<close> would have done.
\<close>

theorem GoogleLogger_empty_message:
  "GoogleLogger LOG_INFO prettyPrint_time show_double Style [] sec w = Ok () w"
  by (simp add: GoogleLogger_def)

text \<open>A message that is not empty is written, in the form the style selects.\<close>

lemma GoogleLogger_message:
  assumes "msg \<noteq> []"
  shows "GoogleLogger LOG_INFO prettyPrint_time show_double PRETTY msg sec w =
           LOG_INFO (msg @ '' in '' @ prettyPrint_time sec) w"
    and "GoogleLogger LOG_INFO prettyPrint_time show_double SECONDS msg sec w =
           LOG_INFO (msg @ '' in '' @ show_double sec @ '' seconds'') w"
  using assms by (simp_all add: GoogleLogger_def)

section \<open>How a report runs\<close>

text \<open>What \<^verbatim>\<open>logImpl\<close> and \<^verbatim>\<open>log\<close> do, read off their results: when they return, when
  they throw, and what a capturing logger has written down afterwards.\<close>

lemma logImpl_capturing:
  assumes "logger T = capturing lg"
  shows "case logImpl cast (observed_clock clk) now msg T c of
           Ok d (T', c') \<Rightarrow>
             d = cast now (start T) \<and>
             calls c' = calls c @
               (if minTimeToLog T \<le> cast now (start T) then [(msg, cast now (start T))] else [])
         | Thrown e (T', c') \<Rightarrow>
             calls c' = calls c @
               (if minTimeToLog T \<le> cast now (start T) then [(msg, cast now (start T))] else [])
         | Terminate \<Rightarrow> True"
  using assms
  by (auto simp: logImpl_def Let_def capturing_def observed_clock_def split: result.splits)

lemma logImpl_Ok_iff:
  "logImpl cast clock now msg T w = Ok d (T', w') \<longleftrightarrow>
     d = cast now (start T) \<and>
     (\<exists>w1 t. (if minTimeToLog T \<le> d then logger T msg d w = Ok () w1 else w1 = w) \<and>
           clock w1 = Ok t w' \<and> T' = T\<lparr>start := t\<rparr>)"
  by (auto simp: logImpl_def Let_def split: result.splits if_splits)

lemma logImpl_Thrown_iff:
  "logImpl cast clock now msg T w = Thrown e s \<longleftrightarrow>
     (\<exists>w'. s = (T, w') \<and>
        ((minTimeToLog T \<le> cast now (start T) \<and>
          logger T msg (cast now (start T)) w = Thrown e w') \<or>
         (\<exists>w1. (if minTimeToLog T \<le> cast now (start T)
                 then logger T msg (cast now (start T)) w = Ok () w1 else w1 = w) \<and>
                clock w1 = Thrown e w')))"
  by (auto simp: logImpl_def Let_def split: result.splits if_splits)

lemma log_msg_Ok_iff:
  "log_msg cast clock msg T w = Ok d (T', w') \<longleftrightarrow>
     (\<exists>now w0. clock w = Ok now w0 \<and> logImpl cast clock now msg T w0 = Ok d (T', w'))"
  by (auto simp: log_msg_def split: result.splits)

lemma log_msg_fields:
  assumes "log_msg cast clock msg T w = Ok d (T', w')"
  shows "destructionMessage T' = destructionMessage T" "minTimeToLog T' = minTimeToLog T"
    "logger T' = logger T"
  using assms by (auto simp: log_msg_Ok_iff logImpl_Ok_iff)

lemma log_args_pure:
  assumes "\<And>v. to_string args v = Ok m v"
  shows "log_args cast clock to_string args T w = log_msg cast clock m T w"
  by (simp add: log_args_def log_msg_def assms split: result.splits)

lemma log_msg_capturing:
  assumes "logger T = capturing lg" and "clk (env c) = Ok now u"
  shows "case log_msg cast (observed_clock clk) msg T c of
           Ok d (T', c') \<Rightarrow>
             d = cast now (start T) \<and>
             calls c' = calls c @
               (if minTimeToLog T \<le> cast now (start T) then [(msg, cast now (start T))] else [])
         | Thrown e (T', c') \<Rightarrow>
             calls c' = calls c @
               (if minTimeToLog T \<le> cast now (start T) then [(msg, cast now (start T))] else [])
         | Terminate \<Rightarrow> True"
proof -
  have "log_msg cast (observed_clock clk) msg T c =
        logImpl cast (observed_clock clk) now msg T \<lparr>calls = calls c, env = u\<rparr>"
    using assms(2) by (simp add: log_msg_def observed_clock_def)
  then show ?thesis
    using logImpl_capturing [OF assms(1), where clk = clk and now = now and msg = msg
        and cast = cast and c = "\<lparr>calls = calls c, env = u\<rparr>"]
    by (auto split: result.splits if_splits)
qed

section \<open>Elapsed time and the threshold\<close>

text \<open>
  C2. A report \<^verbatim>\<open>log(msg)\<close> that samples the clock at \<open>now\<close> returns the elapsed time
  \<open>now - start_\<close> as the cast to \<^verbatim>\<open>double\<close> seconds yields it, whether or not the logger was
  called. The logger is called with the message and this value if the value is at least
  \<^verbatim>\<open>minTimeToLog_\<close>, and is not called otherwise: the calls written down grow by exactly that
  one call, or not at all. The same holds of the calls when the report ends in an
  exception. This is so for every cast, exact or rounding.
\<close>

theorem report_returns_elapsed:
  assumes "logger T = capturing lg" and "clk (env c) = Ok now u"
  shows "case log_msg cast (observed_clock clk) msg T c of
           Ok d (T', c') \<Rightarrow>
             d = cast now (start T) \<and>
             calls c' = calls c @
               (if minTimeToLog T \<le> cast now (start T) then [(msg, cast now (start T))] else [])
         | Thrown e (T', c') \<Rightarrow>
             calls c' = calls c @
               (if minTimeToLog T \<le> cast now (start T) then [(msg, cast now (start T))] else [])
         | Terminate \<Rightarrow> True"
  using assms by (rule log_msg_capturing)

text \<open>With the exact cast: at \<open>t = 2\<close> a timer started at \<open>0\<close> with threshold \<open>1\<close> reports \<open>2\<close>
  and calls the logger once. With a cast that rounds: the checkpoint is \<open>1/16\<close>, the clock
  reads \<open>1\<close> and the threshold is \<open>1\<close>; the exact difference \<open>15/16\<close> is below the threshold,
  but the cast yields \<open>1\<close>, and it is \<open>1\<close> that is returned and with \<open>1\<close> that the logger is
  called.\<close>

theorem report_returns_elapsed_witness:
  "logger \<lparr>destructionMessage = ''work'', start = 0, minTimeToLog = 1,
           logger = capturing silent_logger\<rparr> = capturing silent_logger \<and>
   fake_clock (env \<lparr>calls = [], env = 2\<rparr>) = Ok 2 2 \<and>
   log_msg exact_cast (observed_clock fake_clock) ''m''
     \<lparr>destructionMessage = ''work'', start = 0, minTimeToLog = 1,
      logger = capturing silent_logger\<rparr> \<lparr>calls = [], env = 2\<rparr> =
   Ok 2 (\<lparr>destructionMessage = ''work'', start = 2, minTimeToLog = 1,
          logger = capturing silent_logger\<rparr>, \<lparr>calls = [(''m'', 2)], env = 2\<rparr>) \<and>
   fake_clock (env \<lparr>calls = [], env = 1\<rparr>) = Ok 1 1 \<and>
   quarter_cast 1 (1/16) = 1 \<and>
   log_msg quarter_cast (observed_clock fake_clock) ''m''
     \<lparr>destructionMessage = ''work'', start = 1/16, minTimeToLog = 1,
      logger = capturing silent_logger\<rparr> \<lparr>calls = [], env = 1\<rparr> =
   Ok 1 (\<lparr>destructionMessage = ''work'', start = 1, minTimeToLog = 1,
          logger = capturing silent_logger\<rparr>, \<lparr>calls = [(''m'', 1)], env = 1\<rparr>)"
proof -
  let ?T = "\<lparr>destructionMessage = ''work'', start = 0, minTimeToLog = 1,
             logger = capturing silent_logger\<rparr>"
  let ?R = "\<lparr>destructionMessage = ''work'', start = 1/16, minTimeToLog = 1,
             logger = capturing silent_logger\<rparr>"
  have rounds: "quarter_cast 1 (1/16) = 1"
    by (simp add: quarter_cast_def)
  have exact: "case log_msg exact_cast (observed_clock fake_clock) ''m'' ?T \<lparr>calls = [], env = 2\<rparr> of
           Ok d (T', c') \<Rightarrow>
             d = exact_cast 2 (start ?T) \<and>
             calls c' = calls \<lparr>calls = [], env = 2::real\<rparr> @
               (if minTimeToLog ?T \<le> exact_cast 2 (start ?T)
                then [(''m'', exact_cast 2 (start ?T))] else [])
         | Thrown e (T', c') \<Rightarrow>
             calls c' = calls \<lparr>calls = [], env = 2::real\<rparr> @
               (if minTimeToLog ?T \<le> exact_cast 2 (start ?T)
                then [(''m'', exact_cast 2 (start ?T))] else [])
         | Terminate \<Rightarrow> True"
    by (rule report_returns_elapsed [where clk = fake_clock and lg = silent_logger and u = 2])
      (simp_all add: fake_clock_def)
  have rounded: "case log_msg quarter_cast (observed_clock fake_clock) ''m'' ?R \<lparr>calls = [], env = 1\<rparr> of
           Ok d (T', c') \<Rightarrow>
             d = quarter_cast 1 (start ?R) \<and>
             calls c' = calls \<lparr>calls = [], env = 1::real\<rparr> @
               (if minTimeToLog ?R \<le> quarter_cast 1 (start ?R)
                then [(''m'', quarter_cast 1 (start ?R))] else [])
         | Thrown e (T', c') \<Rightarrow>
             calls c' = calls \<lparr>calls = [], env = 1::real\<rparr> @
               (if minTimeToLog ?R \<le> quarter_cast 1 (start ?R)
                then [(''m'', quarter_cast 1 (start ?R))] else [])
         | Terminate \<Rightarrow> True"
    by (rule report_returns_elapsed [where clk = fake_clock and lg = silent_logger and u = 1])
      (simp_all add: fake_clock_def)
  have run_exact: "log_msg exact_cast (observed_clock fake_clock) ''m'' ?T \<lparr>calls = [], env = 2\<rparr> =
      Ok 2 (?T\<lparr>start := 2\<rparr>, \<lparr>calls = [(''m'', 2)], env = 2\<rparr>)"
    by (simp add: log_msg_def logImpl_def Let_def observed_clock_def fake_clock_def
        capturing_def silent_logger_def exact_cast_def)
  have run_rounded: "log_msg quarter_cast (observed_clock fake_clock) ''m'' ?R \<lparr>calls = [], env = 1\<rparr> =
      Ok 1 (?R\<lparr>start := 1\<rparr>, \<lparr>calls = [(''m'', 1)], env = 1\<rparr>)"
    using rounds
    by (simp add: log_msg_def logImpl_def Let_def observed_clock_def fake_clock_def
        capturing_def silent_logger_def)
  have returned_exact: "exact_cast 2 (start ?T) = 2"
    using exact unfolding run_exact by simp
  have returned_rounded: "quarter_cast 1 (start ?R) = 1"
    using rounded unfolding run_rounded by simp
  from returned_exact returned_rounded run_exact run_rounded rounds show ?thesis
    by (simp add: fake_clock_def)
qed


section \<open>The checkpoint\<close>

text \<open>
  C3. The constructor stores the sample of the clock it takes. A report that returns has
  sampled the clock, called the logger or skipped it, and then sampled the clock again in
  the environment the logger left: that second sample is the new checkpoint, so the time
  the logger took lies before it and is in no reported interval. With a clock that reading
  does not advance, a cast that yields \<open>0\<close> for a time point and itself, and a threshold
  above zero, a second report right after the first returns \<open>0\<close> and leaves timer and
  environment as they are: the logger is not called.
\<close>

theorem checkpoint_reset:
  "(AutoTimer_ctor clock m thr lg w = Ok T0 w0 \<longrightarrow> clock w = Ok (start T0) w0) \<and>
   (log_msg cast clock msg T w = Ok d (T', w') \<longrightarrow>
      (\<exists>now wa wb. clock w = Ok now wa \<and> d = cast now (start T) \<and>
          (if minTimeToLog T \<le> d then logger T msg d wa = Ok () wb else wb = wa) \<and>
          clock wb = Ok (start T') w')) \<and>
   ((\<forall>v. clock v = Ok (reading v) v) \<longrightarrow> (\<forall>t. cast t t = 0) \<longrightarrow>
      log_msg cast clock msg T w = Ok d (T', w') \<longrightarrow>
      0 < minTimeToLog T \<longrightarrow> log_msg cast clock msg2 T' w' = Ok 0 (T', w'))"
proof (intro conjI impI)
  assume "AutoTimer_ctor clock m thr lg w = Ok T0 w0"
  then show "clock w = Ok (start T0) w0"
    by (auto simp: AutoTimer_ctor_def split: result.splits)
next
  assume "log_msg cast clock msg T w = Ok d (T', w')"
  then obtain now wa wb t where "clock w = Ok now wa" "d = cast now (start T)"
    "if minTimeToLog T \<le> d then logger T msg d wa = Ok () wb else wb = wa"
    "clock wb = Ok t w'" "T' = T\<lparr>start := t\<rparr>"
    unfolding log_msg_Ok_iff logImpl_Ok_iff by blast
  then have "clock w = Ok now wa \<and> d = cast now (start T) \<and>
          (if minTimeToLog T \<le> d then logger T msg d wa = Ok () wb else wb = wa) \<and>
          clock wb = Ok (start T') w'"
    by simp
  then show "\<exists>now wa wb. clock w = Ok now wa \<and> d = cast now (start T) \<and>
          (if minTimeToLog T \<le> d then logger T msg d wa = Ok () wb else wb = wa) \<and>
          clock wb = Ok (start T') w'"
    by blast
next
  assume rd: "\<forall>v. clock v = Ok (reading v) v" and zero: "\<forall>t. cast t t = 0"
    and r: "log_msg cast clock msg T w = Ok d (T', w')" and pos: "0 < minTimeToLog T"
  from r rd have T': "T' = T\<lparr>start := reading w'\<rparr>"
    by (auto simp: log_msg_Ok_iff logImpl_Ok_iff)
  then have "start T' = reading w'" "minTimeToLog T' = minTimeToLog T" by simp_all
  with pos rd zero show "log_msg cast clock msg2 T' w' = Ok 0 (T', w')"
    by (simp add: log_msg_def logImpl_def)
qed

text \<open>A logger that takes a quarter of a second: the report at \<open>t = 1\<close> returns \<open>1\<close> and
  moves the checkpoint to \<open>5/4\<close>; the report that follows at once returns \<open>0\<close>.\<close>

theorem checkpoint_reset_witness:
  "AutoTimer_ctor fake_clock ''work'' (1/2) (slow_logger (1/4)) 0 =
     Ok \<lparr>destructionMessage = ''work'', start = 0, minTimeToLog = 1/2,
         logger = slow_logger (1/4)\<rparr> 0 \<and>
   fake_clock 0 = Ok 0 0 \<and>
   log_msg exact_cast fake_clock ''a''
     \<lparr>destructionMessage = ''work'', start = 0, minTimeToLog = 1/2,
      logger = slow_logger (1/4)\<rparr> 1 =
     Ok 1 (\<lparr>destructionMessage = ''work'', start = 5/4, minTimeToLog = 1/2,
            logger = slow_logger (1/4)\<rparr>, 5/4) \<and>
   (\<forall>v. fake_clock v = Ok v v) \<and>
   (\<forall>t. exact_cast t t = 0) \<and>
   log_msg exact_cast fake_clock ''b''
     \<lparr>destructionMessage = ''work'', start = 5/4, minTimeToLog = 1/2,
      logger = slow_logger (1/4)\<rparr> (5/4) =
     Ok 0 (\<lparr>destructionMessage = ''work'', start = 5/4, minTimeToLog = 1/2,
            logger = slow_logger (1/4)\<rparr>, 5/4)"
proof -
  let ?T = "\<lparr>destructionMessage = ''work'', start = 0, minTimeToLog = 1/2,
             logger = slow_logger (1/4)\<rparr>"
  let ?T' = "\<lparr>destructionMessage = ''work'', start = 5/4, minTimeToLog = 1/2,
              logger = slow_logger (1/4)\<rparr>"
  have built: "AutoTimer_ctor fake_clock ''work'' (1/2) (slow_logger (1/4)) 0 = Ok ?T 0"
    by (simp add: AutoTimer_ctor_def fake_clock_def)
  have first: "log_msg exact_cast fake_clock ''a'' ?T 1 = Ok 1 (?T', 5/4)"
    by (simp add: log_msg_def logImpl_def Let_def fake_clock_def slow_logger_def exact_cast_def)
  have frozen: "fake_clock v = Ok v v" for v
    by (simp add: fake_clock_def)
  have same: "exact_cast t t = 0" for t
    by (simp add: exact_cast_def)
  have pos: "0 < minTimeToLog ?T"
    by simp
  note inst = checkpoint_reset [where clock = fake_clock and reading = "\<lambda>v. v"
      and cast = exact_cast]
  have sample: "fake_clock 0 = Ok (start ?T) 0"
    using inst [THEN conjunct1, rule_format, OF built] .
  have second: "log_msg exact_cast fake_clock ''b'' ?T' (5/4) = Ok 0 (?T', 5/4)"
    using inst [THEN conjunct2, THEN conjunct2, rule_format, OF frozen same first pos] .
  from built sample first frozen same second show ?thesis
    by simp
qed

section \<open>The scenario of the specification\<close>

text \<open>
  C4. A timer is constructed with message \<^verbatim>\<open>"work"\<close> and threshold \<open>0\<close> while the fake
  clock reads \<open>0\<close>. With the clock at \<open>5/2\<close>, \<^verbatim>\<open>log("step1")\<close> returns \<open>5/2\<close> and the logger has
  been called once, with \<open>(''step1'', 5/2)\<close>; so does the variadic \<^verbatim>\<open>log\<close>, which a call
  with a string literal selects, with a builder that takes no time. With the clock at \<open>3\<close>
  the scope ends, and the logger has been called once more, with \<open>(''work'', 1/2)\<close>. This
  is so with every cast that yields \<open>5/2\<close> for the readings \<open>5/2\<close> and \<open>0\<close> and \<open>1/2\<close> for the
  readings \<open>3\<close> and \<open>5/2\<close>, as a cast to \<^verbatim>\<open>double\<close> does, and whether or not the destructor is
  \<^verbatim>\<open>noexcept\<close>.
\<close>

theorem scenario_work:
  assumes "cast (5/2) 0 = 5/2" and "cast 3 (5/2) = 1/2"
  shows
  "AutoTimer_ctor (observed_clock fake_clock) ''work'' 0 (capturing silent_logger)
       \<lparr>calls = [], env = 0\<rparr> =
     Ok \<lparr>destructionMessage = ''work'', start = 0, minTimeToLog = 0,
         logger = capturing silent_logger\<rparr> \<lparr>calls = [], env = 0\<rparr> \<and>
   log_msg cast (observed_clock fake_clock) ''step1''
       \<lparr>destructionMessage = ''work'', start = 0, minTimeToLog = 0,
        logger = capturing silent_logger\<rparr> \<lparr>calls = [], env = 5/2\<rparr> =
     Ok (5/2) (\<lparr>destructionMessage = ''work'', start = 5/2, minTimeToLog = 0,
                logger = capturing silent_logger\<rparr>,
               \<lparr>calls = [(''step1'', 5/2)], env = 5/2\<rparr>) \<and>
   log_args cast (observed_clock fake_clock) concat_args [''step1'']
       \<lparr>destructionMessage = ''work'', start = 0, minTimeToLog = 0,
        logger = capturing silent_logger\<rparr> \<lparr>calls = [], env = 5/2\<rparr> =
     Ok (5/2) (\<lparr>destructionMessage = ''work'', start = 5/2, minTimeToLog = 0,
                logger = capturing silent_logger\<rparr>,
               \<lparr>calls = [(''step1'', 5/2)], env = 5/2\<rparr>) \<and>
   end_of_scope cast nx (observed_clock fake_clock)
       (Ok () ([\<lparr>destructionMessage = ''work'', start = 5/2, minTimeToLog = 0,
                  logger = capturing silent_logger\<rparr>],
               \<lparr>calls = [(''step1'', 5/2)], env = 3\<rparr>)) =
     Ok () \<lparr>calls = [(''step1'', 5/2), (''work'', 1/2)], env = 3\<rparr>"
  using assms
  by (simp add: AutoTimer_ctor_def log_msg_def log_args_def concat_args_def logImpl_def Let_def
      end_of_scope_def AutoTimer_dtor_def observed_clock_def fake_clock_def capturing_def
      silent_logger_def)

text \<open>The exact cast is one such cast.\<close>

theorem scenario_work_witness:
  "exact_cast (5/2) 0 = 5/2 \<and> exact_cast 3 (5/2) = 1/2 \<and>
   AutoTimer_ctor (observed_clock fake_clock) ''work'' 0 (capturing silent_logger)
       \<lparr>calls = [], env = 0\<rparr> =
     Ok \<lparr>destructionMessage = ''work'', start = 0, minTimeToLog = 0,
         logger = capturing silent_logger\<rparr> \<lparr>calls = [], env = 0\<rparr> \<and>
   log_msg exact_cast (observed_clock fake_clock) ''step1''
       \<lparr>destructionMessage = ''work'', start = 0, minTimeToLog = 0,
        logger = capturing silent_logger\<rparr> \<lparr>calls = [], env = 5/2\<rparr> =
     Ok (5/2) (\<lparr>destructionMessage = ''work'', start = 5/2, minTimeToLog = 0,
                logger = capturing silent_logger\<rparr>,
               \<lparr>calls = [(''step1'', 5/2)], env = 5/2\<rparr>) \<and>
   log_args exact_cast (observed_clock fake_clock) concat_args [''step1'']
       \<lparr>destructionMessage = ''work'', start = 0, minTimeToLog = 0,
        logger = capturing silent_logger\<rparr> \<lparr>calls = [], env = 5/2\<rparr> =
     Ok (5/2) (\<lparr>destructionMessage = ''work'', start = 5/2, minTimeToLog = 0,
                logger = capturing silent_logger\<rparr>,
               \<lparr>calls = [(''step1'', 5/2)], env = 5/2\<rparr>) \<and>
   end_of_scope exact_cast True (observed_clock fake_clock)
       (Ok () ([\<lparr>destructionMessage = ''work'', start = 5/2, minTimeToLog = 0,
                  logger = capturing silent_logger\<rparr>],
               \<lparr>calls = [(''step1'', 5/2)], env = 3\<rparr>)) =
     Ok () \<lparr>calls = [(''step1'', 5/2), (''work'', 1/2)], env = 3\<rparr>"
proof -
  have a: "exact_cast (5/2) 0 = 5/2" and b: "exact_cast 3 (5/2) = 1/2"
    by (simp_all add: exact_cast_def)
  from scenario_work [of exact_cast True, OF a b] a b show ?thesis
    by simp
qed

section \<open>The factory\<close>

text \<open>
  C9. \<^verbatim>\<open>makeAutoTimer\<close> with a message, a threshold and a logger gives what the
  constructor gives with the same arguments in the same environment: the timer that
  stores the message, the threshold and the logger, with the sample of the clock taken
  at construction as its checkpoint, and the same exception when the clock throws.
\<close>

theorem makeAutoTimer_is_constructor:
  "makeAutoTimer clock msg thr lg w = AutoTimer_ctor clock msg thr lg w \<and>
   makeAutoTimer clock msg thr lg w =
     (case clock w of
        Ok t w' \<Rightarrow>
          Ok \<lparr>destructionMessage = msg, start = t, minTimeToLog = thr, logger = lg\<rparr> w'
      | Thrown e w' \<Rightarrow> Thrown e w'
      | Terminate \<Rightarrow> Terminate)"
  by (simp add: makeAutoTimer_def AutoTimer_ctor_def)


section \<open>The default threshold\<close>

text \<open>
  C6. The constructors that leave the threshold to its default store \<open>0\<close>, and a report
  keeps the threshold it finds. With threshold \<open>0\<close> and a clock that has not gone back
  behind the checkpoint, so that the elapsed time the cast yields is not negative, every
  report calls the logger, with the message and the elapsed time.
\<close>

theorem default_threshold_always_logs:
  "(AutoTimer_ctor_msg clock0 m lg0 w0 = Ok T0 w1 \<longrightarrow> minTimeToLog T0 = 0) \<and>
   (AutoTimer_ctor_default clock1 lg1 v0 = Ok T1 v1 \<longrightarrow> minTimeToLog T1 = 0) \<and>
   (minTimeToLog T = 0 \<longrightarrow> logger T = capturing lg \<longrightarrow> clk (env c) = Ok now u \<longrightarrow>
    0 \<le> cast now (start T) \<longrightarrow>
      (case log_msg cast (observed_clock clk) msg T c of
         Ok d (T', c') \<Rightarrow>
           calls c' = calls c @ [(msg, cast now (start T))] \<and> minTimeToLog T' = 0
       | Thrown e (T', c') \<Rightarrow> calls c' = calls c @ [(msg, cast now (start T))]
       | Terminate \<Rightarrow> True))"
proof (intro conjI impI)
  assume "AutoTimer_ctor_msg clock0 m lg0 w0 = Ok T0 w1"
  then show "minTimeToLog T0 = 0"
    by (auto simp: AutoTimer_ctor_msg_def AutoTimer_ctor_def split: result.splits)
next
  assume "AutoTimer_ctor_default clock1 lg1 v0 = Ok T1 v1"
  then show "minTimeToLog T1 = 0"
    by (auto simp: AutoTimer_ctor_default_def AutoTimer_ctor_def split: result.splits)
next
  assume zero: "minTimeToLog T = 0" and lg: "logger T = capturing lg"
    and now: "clk (env c) = Ok now u" and mono: "0 \<le> cast now (start T)"
  have keep: "minTimeToLog T' = 0"
    if "log_msg cast (observed_clock clk) msg T c = Ok d (T', c')" for d T' c'
    using that zero log_msg_fields(2) by fastforce
  from zero mono have "minTimeToLog T \<le> cast now (start T)" by simp
  with log_msg_capturing [where clk = clk and c = c and msg = msg and cast = cast, OF lg now] keep
  show "case log_msg cast (observed_clock clk) msg T c of
         Ok d (T', c') \<Rightarrow>
           calls c' = calls c @ [(msg, cast now (start T))] \<and> minTimeToLog T' = 0
       | Thrown e (T', c') \<Rightarrow> calls c' = calls c @ [(msg, cast now (start T))]
       | Terminate \<Rightarrow> True"
    by (auto split: result.splits)
qed

text \<open>Also at the boundary: the report taken at the very reading of the checkpoint has
  elapsed time \<open>0\<close> and calls the logger.\<close>

theorem default_threshold_always_logs_witness:
  "AutoTimer_ctor_msg (observed_clock fake_clock) ''work'' (capturing silent_logger)
       \<lparr>calls = [], env = 0\<rparr> =
     Ok \<lparr>destructionMessage = ''work'', start = 0, minTimeToLog = 0,
         logger = capturing silent_logger\<rparr> \<lparr>calls = [], env = 0\<rparr> \<and>
   AutoTimer_ctor_default (observed_clock fake_clock) (capturing silent_logger)
       \<lparr>calls = [], env = 0\<rparr> =
     Ok \<lparr>destructionMessage = [], start = 0, minTimeToLog = 0,
         logger = capturing silent_logger\<rparr> \<lparr>calls = [], env = 0\<rparr> \<and>
   fake_clock (env \<lparr>calls = [], env = 0\<rparr>) = Ok 0 0 \<and>
   0 \<le> exact_cast 0 0 \<and>
   log_msg exact_cast (observed_clock fake_clock) ''m''
       \<lparr>destructionMessage = ''work'', start = 0, minTimeToLog = 0,
        logger = capturing silent_logger\<rparr> \<lparr>calls = [], env = 0\<rparr> =
     Ok 0 (\<lparr>destructionMessage = ''work'', start = 0, minTimeToLog = 0,
            logger = capturing silent_logger\<rparr>, \<lparr>calls = [(''m'', 0)], env = 0\<rparr>)"
proof -
  let ?T = "\<lparr>destructionMessage = ''work'', start = 0, minTimeToLog = 0,
             logger = capturing silent_logger\<rparr>"
  let ?c = "\<lparr>calls = [], env = 0::real\<rparr>"
  note inst = default_threshold_always_logs [where clk = fake_clock and c = ?c and T = ?T
        and lg = silent_logger and msg = "''m''" and now = 0 and u = 0 and cast = exact_cast]
  have built: "AutoTimer_ctor_msg (observed_clock fake_clock) ''work'' (capturing silent_logger) ?c
      = Ok ?T ?c"
    by (simp add: AutoTimer_ctor_msg_def AutoTimer_ctor_def observed_clock_def fake_clock_def)
  have now: "fake_clock (env ?c) = Ok 0 0"
    by (simp add: fake_clock_def)
  have zero: "minTimeToLog ?T = 0"
    using inst [THEN conjunct1, rule_format, OF built] .
  have bare: "AutoTimer_ctor_default (observed_clock fake_clock) (capturing silent_logger) ?c
      = Ok (?T\<lparr>destructionMessage := []\<rparr>) ?c"
    by (simp add: AutoTimer_ctor_default_def AutoTimer_ctor_def observed_clock_def fake_clock_def)
  have zero_bare: "minTimeToLog (?T\<lparr>destructionMessage := []\<rparr>) = 0"
    using inst [THEN conjunct2, THEN conjunct1, rule_format, OF bare] .
  have elapsed: "0 \<le> exact_cast 0 (start ?T)"
    by (simp add: exact_cast_def)
  have run: "log_msg exact_cast (observed_clock fake_clock) ''m'' ?T ?c =
      Ok 0 (?T, \<lparr>calls = [(''m'', 0)], env = 0\<rparr>)"
    by (simp add: log_msg_def logImpl_def Let_def observed_clock_def fake_clock_def
        capturing_def silent_logger_def exact_cast_def)
  have "case log_msg exact_cast (observed_clock fake_clock) ''m'' ?T ?c of
         Ok d (T', c') \<Rightarrow>
           calls c' = calls ?c @ [(''m'', exact_cast 0 (start ?T))] \<and> minTimeToLog T' = 0
       | Thrown e (T', c') \<Rightarrow> calls c' = calls ?c @ [(''m'', exact_cast 0 (start ?T))]
       | Terminate \<Rightarrow> True"
    using inst [THEN conjunct2, THEN conjunct2, rule_format, OF zero _ now elapsed] by simp
  then have logged: "exact_cast 0 (start ?T) = 0"
    unfolding run by simp
  from built bare now logged run zero_bare show ?thesis
    by simp
qed

section \<open>Empty messages and the timer\<close>

lemma AutoTimer_dtor_capturing:
  assumes "logger T = capturing lg" and "clk (env c) = Ok now u"
  shows "case AutoTimer_dtor cast nx (observed_clock clk) T c of
           Ok _ c' \<Rightarrow>
             calls c' = calls c @
               (if minTimeToLog T \<le> cast now (start T)
                then [(destructionMessage T, cast now (start T))] else [])
         | Thrown _ c' \<Rightarrow>
             \<not> nx \<and>
             calls c' = calls c @
               (if minTimeToLog T \<le> cast now (start T)
                then [(destructionMessage T, cast now (start T))] else [])
         | Terminate \<Rightarrow> True"
  using log_msg_capturing [where clk = clk and c = c and msg = "destructionMessage T"
      and cast = cast, OF assms]
  by (auto simp: AutoTimer_dtor_def split: result.splits)

text \<open>
  C10. The timer does not look at the message. A report with the empty message, as
  \<^verbatim>\<open>log()\<close> is, calls the logger the timer holds with the empty string whenever the
  elapsed time reaches the threshold. The default constructor stores the empty
  destruction message, and the destructor of a timer with the empty destruction message
  calls the logger with the empty string in the same way; it throws only if it is not
  \<^verbatim>\<open>noexcept\<close>. Only \<^verbatim>\<open>GoogleLogger\<close> drops empty messages.
\<close>

theorem empty_message_reaches_logger:
  "(logger T = capturing lg \<longrightarrow> clk (env c) = Ok now u \<longrightarrow>
    minTimeToLog T \<le> cast now (start T) \<longrightarrow>
      (case log_msg cast (observed_clock clk) [] T c of
         Ok d (T', c') \<Rightarrow> calls c' = calls c @ [([], cast now (start T))]
       | Thrown e (T', c') \<Rightarrow> calls c' = calls c @ [([], cast now (start T))]
       | Terminate \<Rightarrow> True)) \<and>
   (AutoTimer_ctor_default clock1 lg1 v0 = Ok T1 v1 \<longrightarrow> destructionMessage T1 = []) \<and>
   (destructionMessage T = [] \<longrightarrow> logger T = capturing lg \<longrightarrow> clk (env c) = Ok now u \<longrightarrow>
    minTimeToLog T \<le> cast now (start T) \<longrightarrow>
      (case AutoTimer_dtor cast nx (observed_clock clk) T c of
         Ok _ c' \<Rightarrow> calls c' = calls c @ [([], cast now (start T))]
       | Thrown _ c' \<Rightarrow> \<not> nx \<and> calls c' = calls c @ [([], cast now (start T))]
       | Terminate \<Rightarrow> True))"
proof (intro conjI impI)
  assume lg: "logger T = capturing lg" and now: "clk (env c) = Ok now u"
    and met: "minTimeToLog T \<le> cast now (start T)"
  with log_msg_capturing [where clk = clk and c = c and msg = "[]" and cast = cast, OF lg now]
  show "case log_msg cast (observed_clock clk) [] T c of
         Ok d (T', c') \<Rightarrow> calls c' = calls c @ [([], cast now (start T))]
       | Thrown e (T', c') \<Rightarrow> calls c' = calls c @ [([], cast now (start T))]
       | Terminate \<Rightarrow> True"
    by (auto split: result.splits)
next
  assume "AutoTimer_ctor_default clock1 lg1 v0 = Ok T1 v1"
  then show "destructionMessage T1 = []"
    by (auto simp: AutoTimer_ctor_default_def AutoTimer_ctor_def split: result.splits)
next
  assume empty: "destructionMessage T = []" and lg: "logger T = capturing lg"
    and now: "clk (env c) = Ok now u" and met: "minTimeToLog T \<le> cast now (start T)"
  with AutoTimer_dtor_capturing [where clk = clk and c = c and cast = cast and nx = nx,
      OF lg now]
  show "case AutoTimer_dtor cast nx (observed_clock clk) T c of
         Ok _ c' \<Rightarrow> calls c' = calls c @ [([], cast now (start T))]
       | Thrown _ c' \<Rightarrow> \<not> nx \<and> calls c' = calls c @ [([], cast now (start T))]
       | Terminate \<Rightarrow> True"
    by (auto split: result.splits)
qed

text \<open>A default-constructed timer over a capturing logger: the report with no message
  and the destructor each hand the empty string to the logger.\<close>

theorem empty_message_reaches_logger_witness:
  "AutoTimer_ctor_default (observed_clock fake_clock) (capturing silent_logger)
       \<lparr>calls = [], env = 0\<rparr> =
     Ok \<lparr>destructionMessage = [], start = 0, minTimeToLog = 0,
         logger = capturing silent_logger\<rparr> \<lparr>calls = [], env = 0\<rparr> \<and>
   fake_clock (env \<lparr>calls = [], env = 1\<rparr>) = Ok 1 1 \<and>
   (0::real) \<le> exact_cast 1 0 \<and>
   log_msg exact_cast (observed_clock fake_clock) []
       \<lparr>destructionMessage = [], start = 0, minTimeToLog = 0,
        logger = capturing silent_logger\<rparr> \<lparr>calls = [], env = 1\<rparr> =
     Ok 1 (\<lparr>destructionMessage = [], start = 1, minTimeToLog = 0,
            logger = capturing silent_logger\<rparr>, \<lparr>calls = [([], 1)], env = 1\<rparr>) \<and>
   AutoTimer_dtor exact_cast True (observed_clock fake_clock)
       \<lparr>destructionMessage = [], start = 0, minTimeToLog = 0,
        logger = capturing silent_logger\<rparr> \<lparr>calls = [], env = 1\<rparr> =
     Ok () \<lparr>calls = [([], 1)], env = 1\<rparr>"
proof -
  let ?T = "\<lparr>destructionMessage = [], start = 0, minTimeToLog = 0,
             logger = capturing silent_logger\<rparr>"
  let ?d = "\<lparr>calls = [], env = 0::real\<rparr>"
  let ?c = "\<lparr>calls = [], env = 1::real\<rparr>"
  note inst = empty_message_reaches_logger [where clk = fake_clock and c = ?c and T = ?T
      and lg = silent_logger and now = 1 and u = 1 and cast = exact_cast and nx = True]
  have built: "AutoTimer_ctor_default (observed_clock fake_clock) (capturing silent_logger) ?d
      = Ok ?T ?d"
    by (simp add: AutoTimer_ctor_default_def AutoTimer_ctor_def observed_clock_def fake_clock_def)
  have now: "fake_clock (env ?c) = Ok 1 1"
    by (simp add: fake_clock_def)
  have empty: "destructionMessage ?T = []"
    using inst [THEN conjunct2, THEN conjunct1, rule_format, OF built] .
  have met: "minTimeToLog ?T \<le> exact_cast 1 (start ?T)"
    by (simp add: exact_cast_def)
  have run: "log_msg exact_cast (observed_clock fake_clock) [] ?T ?c =
      Ok 1 (?T\<lparr>start := 1\<rparr>, \<lparr>calls = [([], 1)], env = 1\<rparr>)"
    by (simp add: log_msg_def logImpl_def Let_def observed_clock_def fake_clock_def
        capturing_def silent_logger_def exact_cast_def)
  have gone: "AutoTimer_dtor exact_cast True (observed_clock fake_clock) ?T ?c =
      Ok () \<lparr>calls = [([], 1)], env = 1\<rparr>"
    by (simp add: AutoTimer_dtor_def run)
  have "case log_msg exact_cast (observed_clock fake_clock) [] ?T ?c of
         Ok d (T', c') \<Rightarrow> calls c' = calls ?c @ [([], exact_cast 1 (start ?T))]
       | Thrown e (T', c') \<Rightarrow> calls c' = calls ?c @ [([], exact_cast 1 (start ?T))]
       | Terminate \<Rightarrow> True"
    using inst [THEN conjunct1, rule_format, OF _ now met] by simp
  then have reported: "exact_cast 1 (start ?T) = 1"
    unfolding run by simp
  have "case AutoTimer_dtor exact_cast True (observed_clock fake_clock) ?T ?c of
         Ok _ c' \<Rightarrow> calls c' = calls ?c @ [([], exact_cast 1 (start ?T))]
       | Thrown _ c' \<Rightarrow> \<not> True \<and> calls c' = calls ?c @ [([], exact_cast 1 (start ?T))]
       | Terminate \<Rightarrow> True"
    using inst [THEN conjunct2, THEN conjunct2, rule_format, OF empty _ now met] by simp
  then have destroyed: "exact_cast 1 (start ?T) = 1"
    unfolding gone by simp
  from built now reported destroyed run gone show ?thesis
    by (simp add: exact_cast_def)
qed


section \<open>Reports that build their message\<close>

lemma log_args_Ok_iff:
  "log_args cast clock to_string args T w = Ok d (T', w') \<longleftrightarrow>
     (\<exists>now w1 m w2. clock w = Ok now w1 \<and> to_string args w1 = Ok m w2 \<and>
        logImpl cast clock now m T w2 = Ok d (T', w'))"
  by (auto simp: log_args_def split: result.splits)

text \<open>
  C5, as the specification states it, fails. Building the message takes half a second, from
  \<open>1\<close> to \<open>3/2\<close> on the fake clock. The variadic \<^verbatim>\<open>log\<close> returns \<open>1\<close>: the clock was
  sampled before the message was built, so the half second is not part of the interval
  it closes, and as the checkpoint becomes \<open>3/2\<close> it is not part of the next either. The
  report on the string built beforehand, called when the string is ready, returns \<open>3/2\<close>.
\<close>

theorem formatting_time_counterexample:
  "log_args exact_cast fake_clock (slow_concat (1/2)) [''step'', ''1'']
       \<lparr>destructionMessage = [], start = 0, minTimeToLog = 0, logger = silent_logger\<rparr> 1 =
     Ok 1 (\<lparr>destructionMessage = [], start = 3/2, minTimeToLog = 0, logger = silent_logger\<rparr>,
           3/2) \<and>
   slow_concat (1/2) [''step'', ''1''] 1 = Ok ''step1'' (3/2) \<and>
   log_msg exact_cast fake_clock ''step1''
       \<lparr>destructionMessage = [], start = 0, minTimeToLog = 0, logger = silent_logger\<rparr> (3/2) =
     Ok (3/2) (\<lparr>destructionMessage = [], start = 3/2, minTimeToLog = 0,
                logger = silent_logger\<rparr>, 3/2)"
  by (simp add: log_args_def log_msg_def logImpl_def Let_def fake_clock_def slow_concat_def
      silent_logger_def exact_cast_def)

text \<open>
  C5, amended. \<^verbatim>\<open>logFormat\<close> and the variadic \<^verbatim>\<open>log\<close> differ only in the builder. Each
  samples the clock, then builds the message, then calls \<^verbatim>\<open>logImpl\<close> with that sample and
  the message. When the call returns, its value is the cast of the sample and the
  checkpoint, the logger has run in the environment the builder left, and the new
  checkpoint is a sample taken after the logger: the time the builder took is in neither
  the interval closed nor the next one. With a builder that does not change the
  environment the call is \<^verbatim>\<open>log\<close> on the built string.
\<close>

theorem formatting_overloads:
  "logFormat cast clock to_string args T w = log_args cast clock to_string args T w \<and>
   (clock w = Ok now w1 \<longrightarrow> to_string args w1 = Ok m w2 \<longrightarrow>
      log_args cast clock to_string args T w = logImpl cast clock now m T w2) \<and>
   (log_args cast clock to_string args T w = Ok d (T', w') \<longrightarrow>
      (\<exists>now w1 m w2 w3. clock w = Ok now w1 \<and> to_string args w1 = Ok m w2 \<and>
          d = cast now (start T) \<and>
          (if minTimeToLog T \<le> d then logger T m d w2 = Ok () w3 else w3 = w2) \<and>
          clock w3 = Ok (start T') w')) \<and>
   ((\<forall>v. to_string args v = Ok m v) \<longrightarrow>
      log_args cast clock to_string args T w = log_msg cast clock m T w)"
proof (intro conjI impI)
  show "logFormat cast clock to_string args T w = log_args cast clock to_string args T w"
    by (simp add: logFormat_def log_args_def)
next
  assume "clock w = Ok now w1" and "to_string args w1 = Ok m w2"
  then show "log_args cast clock to_string args T w = logImpl cast clock now m T w2"
    by (simp add: log_args_def)
next
  assume "log_args cast clock to_string args T w = Ok d (T', w')"
  then obtain now w1 m w2 w3 t where "clock w = Ok now w1" "to_string args w1 = Ok m w2"
    "d = cast now (start T)"
    "if minTimeToLog T \<le> d then logger T m d w2 = Ok () w3 else w3 = w2"
    "clock w3 = Ok t w'" "T' = T\<lparr>start := t\<rparr>"
    unfolding log_args_Ok_iff logImpl_Ok_iff by blast
  then have "clock w = Ok now w1 \<and> to_string args w1 = Ok m w2 \<and> d = cast now (start T) \<and>
      (if minTimeToLog T \<le> d then logger T m d w2 = Ok () w3 else w3 = w2) \<and>
      clock w3 = Ok (start T') w'"
    by simp
  then show "\<exists>now w1 m w2 w3. clock w = Ok now w1 \<and> to_string args w1 = Ok m w2 \<and>
      d = cast now (start T) \<and>
      (if minTimeToLog T \<le> d then logger T m d w2 = Ok () w3 else w3 = w2) \<and>
      clock w3 = Ok (start T') w'"
    by blast
next
  assume "\<forall>v. to_string args v = Ok m v"
  then show "log_args cast clock to_string args T w = log_msg cast clock m T w"
    by (simp add: log_args_pure)
qed

text \<open>The builder that takes half a second, and the builder that takes none.\<close>

theorem formatting_overloads_witness:
  "fake_clock 1 = Ok 1 1 \<and>
   slow_concat (1/2) [''step'', ''1''] 1 = Ok ''step1'' (3/2) \<and>
   log_args exact_cast fake_clock (slow_concat (1/2)) [''step'', ''1'']
       \<lparr>destructionMessage = [], start = 0, minTimeToLog = 0, logger = silent_logger\<rparr> 1 =
     logImpl exact_cast fake_clock 1 ''step1''
       \<lparr>destructionMessage = [], start = 0, minTimeToLog = 0, logger = silent_logger\<rparr> (3/2) \<and>
   log_args exact_cast fake_clock (slow_concat (1/2)) [''step'', ''1'']
       \<lparr>destructionMessage = [], start = 0, minTimeToLog = 0, logger = silent_logger\<rparr> 1 =
     Ok 1 (\<lparr>destructionMessage = [], start = 3/2, minTimeToLog = 0, logger = silent_logger\<rparr>,
           3/2) \<and>
   (\<forall>v. slow_concat 0 [''step'', ''1''] v = Ok ''step1'' v) \<and>
   log_args exact_cast fake_clock (slow_concat 0) [''step'', ''1'']
       \<lparr>destructionMessage = [], start = 0, minTimeToLog = 0, logger = silent_logger\<rparr> 1 =
     log_msg exact_cast fake_clock ''step1''
       \<lparr>destructionMessage = [], start = 0, minTimeToLog = 0, logger = silent_logger\<rparr> 1"
proof -
  let ?T = "\<lparr>destructionMessage = [], start = 0, minTimeToLog = 0, logger = silent_logger\<rparr>"
  let ?args = "[''step'', ''1'']"
  have now: "fake_clock 1 = Ok 1 1"
    by (simp add: fake_clock_def)
  have built: "slow_concat (1/2) ?args 1 = Ok ''step1'' (3/2)"
    by (simp add: slow_concat_def)
  have pure: "\<forall>v. slow_concat 0 ?args v = Ok ''step1'' v"
    by (simp add: slow_concat_def)
  have delegates: "log_args exact_cast fake_clock (slow_concat (1/2)) ?args ?T 1 =
      logImpl exact_cast fake_clock 1 ''step1'' ?T (3/2)"
    using formatting_overloads [where clock = fake_clock and to_string = "slow_concat (1/2)"
        and args = ?args and w = 1, THEN conjunct2, THEN conjunct1, rule_format, OF now built] .
  have same: "log_args exact_cast fake_clock (slow_concat 0) ?args ?T 1 =
      log_msg exact_cast fake_clock ''step1'' ?T 1"
    using formatting_overloads [where clock = fake_clock and to_string = "slow_concat 0"
        and args = ?args, THEN conjunct2, THEN conjunct2, THEN conjunct2, rule_format]
      pure by simp
  have run: "log_args exact_cast fake_clock (slow_concat (1/2)) ?args ?T 1 =
      Ok 1 (?T\<lparr>start := 3/2\<rparr>, 3/2)"
    by (simp add: log_args_def logImpl_def Let_def fake_clock_def slow_concat_def
        silent_logger_def exact_cast_def)
  have parts: "\<exists>now w1 m w2 w3. fake_clock 1 = Ok now w1 \<and>
      slow_concat (1/2) ?args w1 = Ok m w2 \<and> 1 = exact_cast now (start ?T) \<and>
      (if minTimeToLog ?T \<le> 1 then logger ?T m 1 w2 = Ok () w3 else w3 = w2) \<and>
      fake_clock w3 = Ok (start (?T\<lparr>start := 3/2\<rparr>)) (3/2)"
    using formatting_overloads [where clock = fake_clock and to_string = "slow_concat (1/2)"
        and args = ?args and w = 1, THEN conjunct2, THEN conjunct2, THEN conjunct1,
        rule_format, OF run] .
  from now built delegates run pure same parts show ?thesis
    by simp
qed


section \<open>The final report\<close>

text \<open>The scope of one timer ends: the destructor makes one report call with the stored
  destruction message, on either path out of the scope.\<close>

lemma end_of_scope_single:
  "end_of_scope cast nx clock (Ok a ([T], w)) =
     (case log_msg cast clock (destructionMessage T) T w of
        Ok _ (_, w') \<Rightarrow> Ok a w'
      | Thrown e (_, w') \<Rightarrow> if nx then Terminate else Thrown e w'
      | Terminate \<Rightarrow> Terminate)"
  "end_of_scope cast nx clock (Thrown e0 ([T], w)) =
     (case log_msg cast clock (destructionMessage T) T w of
        Ok _ (_, w') \<Rightarrow> Thrown e0 w'
      | Thrown _ _ \<Rightarrow> Terminate
      | Terminate \<Rightarrow> Terminate)"
  by (auto simp: end_of_scope_def AutoTimer_dtor_def split: result.splits)

lemma final_report_at_scope_exit:
  assumes "logger T = capturing lg" and "clk (env c) = Ok now u"
  shows "case end_of_scope cast nx (observed_clock clk) (Ok a ([T], c)) of
           Ok _ c' \<Rightarrow>
             calls c' = calls c @
               (if minTimeToLog T \<le> cast now (start T)
                then [(destructionMessage T, cast now (start T))] else [])
         | Thrown _ c' \<Rightarrow>
             \<not> nx \<and>
             calls c' = calls c @
               (if minTimeToLog T \<le> cast now (start T)
                then [(destructionMessage T, cast now (start T))] else [])
         | Terminate \<Rightarrow> True"
    and "case end_of_scope cast nx (observed_clock clk) (Thrown e0 ([T], c)) of
           Ok _ _ \<Rightarrow> False
         | Thrown x c' \<Rightarrow>
             x = e0 \<and>
             calls c' = calls c @
               (if minTimeToLog T \<le> cast now (start T)
                then [(destructionMessage T, cast now (start T))] else [])
         | Terminate \<Rightarrow> True"
  using log_msg_capturing [where clk = clk and c = c and msg = "destructionMessage T"
      and cast = cast, OF assms]
  unfolding end_of_scope_single by (auto split: result.splits)

text \<open>
  C1. The claim is what the class is written for: copying is deleted because it makes no
  sense, and moving is there so that the factory can return a timer. The code breaks it
  for a timer that was moved from. The block
  \<^verbatim>\<open>{ AutoTimer a("work", 0, lg); AutoTimer b(std::move(a)); }\<close> is entered with the clock
  at \<open>0\<close> and left with the clock at \<open>1\<close>: \<open>b\<close> is destroyed, then \<open>a\<close>. The defaulted move
  has copied the constant destruction message, the checkpoint and the threshold, and
  nothing marks \<open>a\<close> as moved from, so both destructors report: the logger is called twice
  with \<open>(''work'', 1)\<close>, where the claim has one call, by \<open>b\<close>.
\<close>

theorem moved_from_source_reports:
  "AutoTimer_ctor (observed_clock fake_clock) ''work'' 0 (capturing silent_logger)
       \<lparr>calls = [], env = 0\<rparr> =
     Ok \<lparr>destructionMessage = ''work'', start = 0, minTimeToLog = 0,
         logger = capturing silent_logger\<rparr> \<lparr>calls = [], env = 0\<rparr> \<and>
   AutoTimer_move trivial_move
       \<lparr>destructionMessage = ''work'', start = 0, minTimeToLog = 0,
        logger = capturing silent_logger\<rparr> =
     (\<lparr>destructionMessage = ''work'', start = 0, minTimeToLog = 0,
       logger = capturing silent_logger\<rparr>,
      \<lparr>destructionMessage = ''work'', start = 0, minTimeToLog = 0,
       logger = capturing silent_logger\<rparr>) \<and>
   end_of_scope exact_cast True (observed_clock fake_clock)
       (Ok ()
         ([\<lparr>destructionMessage = ''work'', start = 0, minTimeToLog = 0,
             logger = capturing silent_logger\<rparr>,
           \<lparr>destructionMessage = ''work'', start = 0, minTimeToLog = 0,
             logger = capturing silent_logger\<rparr>],
          \<lparr>calls = [], env = 1\<rparr>)) =
     Ok () \<lparr>calls = [(''work'', 1), (''work'', 1)], env = 1\<rparr>"
  by (simp add: AutoTimer_ctor_def AutoTimer_move_def trivial_move_def end_of_scope_def
      AutoTimer_dtor_def log_msg_def logImpl_def Let_def observed_clock_def fake_clock_def
      capturing_def silent_logger_def exact_cast_def)

section \<open>Failing capabilities\<close>

lemma logImpl_capturing_once:
  assumes "logger T = capturing lg"
  shows "case logImpl cast (observed_clock clk) now msg T c of
           Ok d (T', c') \<Rightarrow> length (calls c') \<le> length (calls c) + 1
         | Thrown e (T', c') \<Rightarrow> length (calls c') \<le> length (calls c) + 1
         | Terminate \<Rightarrow> True"
  using logImpl_capturing [OF assms, where clk = clk and now = now and msg = msg and c = c
      and cast = cast]
  by (auto split: result.splits)

lemma final_report_throws:
  assumes "log_msg cast clock (destructionMessage T) T w = Thrown e (T, w')"
  shows "end_of_scope cast True clock (Ok a ([T], w)) = Terminate"
    and "end_of_scope cast False clock (Ok a ([T], w)) = Thrown e w'"
    and "end_of_scope cast nx clock (Thrown e0 ([T], w)) = Terminate"
  using assms by (simp_all add: end_of_scope_single)

text \<open>
  C8, as the specification states it, fails for the final report. \<^verbatim>\<open>failing_logger\<close> has an
  ordinary destructor, so the destructor of a timer that holds it is \<^verbatim>\<open>noexcept\<close>. Its
  exception leaves \<^verbatim>\<open>log\<close> unchanged, but when it fails in the final report the exception
  does not reach the code around the scope: the program ends.
\<close>

theorem final_report_failure_counterexample:
  "log_msg exact_cast fake_clock ''work''
       \<lparr>destructionMessage = ''work'', start = 0, minTimeToLog = 0, logger = failing_logger\<rparr> 1 =
     Thrown ''sink unavailable''
       (\<lparr>destructionMessage = ''work'', start = 0, minTimeToLog = 0, logger = failing_logger\<rparr>,
        1) \<and>
   end_of_scope exact_cast True fake_clock
       (Ok ()
         ([\<lparr>destructionMessage = ''work'', start = 0, minTimeToLog = 0,
             logger = failing_logger\<rparr>], 1)) =
     Terminate"
  by (simp add: end_of_scope_def AutoTimer_dtor_def log_msg_def logImpl_def Let_def
      fake_clock_def failing_logger_def exact_cast_def)

text \<open>
  C8, amended. In a report the caller asks for, an exception of the clock or of the logger
  leaves the report as it was thrown, in the environment the capability left, with the
  timer unchanged; an exception that leaves \<^verbatim>\<open>logImpl\<close> is one that the logger or the clock
  threw, so the timer has none of its own; and the logger is called at most once in a
  report, whatever the outcome. In the final report the timer does not catch the exception
  either. It reaches the code around the scope, as it was thrown, if the destructor of the
  timer may throw, which takes a logger type whose destructor is declared
  \<^verbatim>\<open>noexcept(false)\<close>, and the scope is not being left by another exception. If the
  destructor is \<^verbatim>\<open>noexcept\<close>, or another exception is unwinding the scope, the program
  ends.
\<close>

theorem capability_failures:
  "(clock w = Thrown e w' \<longrightarrow> log_msg cast clock msg T w = Thrown e (T, w')) \<and>
   (minTimeToLog T \<le> cast now (start T) \<longrightarrow>
    logger T msg (cast now (start T)) w = Thrown e w' \<longrightarrow>
      logImpl cast clock now msg T w = Thrown e (T, w')) \<and>
   ((if minTimeToLog T \<le> cast now (start T)
     then logger T msg (cast now (start T)) w = Ok () w1 else w1 = w) \<longrightarrow>
    clock w1 = Thrown e w' \<longrightarrow>
      logImpl cast clock now msg T w = Thrown e (T, w')) \<and>
   (logImpl cast clock now msg T w = Thrown e s \<longrightarrow>
      (\<exists>v. s = (T, v) \<and>
         ((minTimeToLog T \<le> cast now (start T) \<and>
           logger T msg (cast now (start T)) w = Thrown e v) \<or>
          (\<exists>v1. (if minTimeToLog T \<le> cast now (start T)
                  then logger T msg (cast now (start T)) w = Ok () v1 else v1 = w) \<and>
                 clock v1 = Thrown e v)))) \<and>
   (logger Tc = capturing lg \<longrightarrow>
      (case logImpl cast (observed_clock clk) t msg Tc c of
         Ok d (T', c') \<Rightarrow> length (calls c') \<le> length (calls c) + 1
       | Thrown x (T', c') \<Rightarrow> length (calls c') \<le> length (calls c) + 1
       | Terminate \<Rightarrow> True)) \<and>
   (clock w = Ok now w0 \<longrightarrow> minTimeToLog T \<le> cast now (start T) \<longrightarrow>
    logger T (destructionMessage T) (cast now (start T)) w0 = Thrown e w' \<longrightarrow>
      end_of_scope cast True clock (Ok a ([T], w)) = Terminate \<and>
      end_of_scope cast False clock (Ok a ([T], w)) = Thrown e w' \<and>
      end_of_scope cast nx clock (Thrown e0 ([T], w)) = Terminate) \<and>
   (log_msg cast clock (destructionMessage T) T w = Thrown e (T, w') \<longrightarrow>
      end_of_scope cast True clock (Ok a ([T], w)) = Terminate \<and>
      end_of_scope cast False clock (Ok a ([T], w)) = Thrown e w' \<and>
      end_of_scope cast nx clock (Thrown e0 ([T], w)) = Terminate)"
proof (intro conjI impI)
  assume "clock w = Thrown e w'"
  then show "log_msg cast clock msg T w = Thrown e (T, w')"
    by (simp add: log_msg_def)
next
  assume "minTimeToLog T \<le> cast now (start T)"
    and "logger T msg (cast now (start T)) w = Thrown e w'"
  then show "logImpl cast clock now msg T w = Thrown e (T, w')"
    by (simp add: logImpl_def Let_def)
next
  assume "if minTimeToLog T \<le> cast now (start T)
     then logger T msg (cast now (start T)) w = Ok () w1 else w1 = w"
    and "clock w1 = Thrown e w'"
  then show "logImpl cast clock now msg T w = Thrown e (T, w')"
    by (auto simp: logImpl_def Let_def split: if_splits)
next
  assume "logImpl cast clock now msg T w = Thrown e s"
  then show "\<exists>v. s = (T, v) \<and>
         ((minTimeToLog T \<le> cast now (start T) \<and>
           logger T msg (cast now (start T)) w = Thrown e v) \<or>
          (\<exists>v1. (if minTimeToLog T \<le> cast now (start T)
                  then logger T msg (cast now (start T)) w = Ok () v1 else v1 = w) \<and>
                 clock v1 = Thrown e v))"
    unfolding logImpl_Thrown_iff .
next
  assume "logger Tc = capturing lg"
  then show "case logImpl cast (observed_clock clk) t msg Tc c of
         Ok d (T', c') \<Rightarrow> length (calls c') \<le> length (calls c) + 1
       | Thrown x (T', c') \<Rightarrow> length (calls c') \<le> length (calls c) + 1
       | Terminate \<Rightarrow> True"
    by (rule logImpl_capturing_once)
next
  assume "clock w = Ok now w0" and "minTimeToLog T \<le> cast now (start T)"
    and "logger T (destructionMessage T) (cast now (start T)) w0 = Thrown e w'"
  then have thrown: "log_msg cast clock (destructionMessage T) T w = Thrown e (T, w')"
    by (simp add: log_msg_def logImpl_def Let_def)
  show "end_of_scope cast True clock (Ok a ([T], w)) = Terminate"
    using thrown by (rule final_report_throws)
  show "end_of_scope cast False clock (Ok a ([T], w)) = Thrown e w'"
    using thrown by (rule final_report_throws)
  show "end_of_scope cast nx clock (Thrown e0 ([T], w)) = Terminate"
    using thrown by (rule final_report_throws)
next
  assume thrown: "log_msg cast clock (destructionMessage T) T w = Thrown e (T, w')"
  show "end_of_scope cast True clock (Ok a ([T], w)) = Terminate"
    using thrown by (rule final_report_throws)
  show "end_of_scope cast False clock (Ok a ([T], w)) = Thrown e w'"
    using thrown by (rule final_report_throws)
  show "end_of_scope cast nx clock (Thrown e0 ([T], w)) = Terminate"
    using thrown by (rule final_report_throws)
qed


text \<open>A clock that fails on entry, a logger that fails, a clock that fails when the
  checkpoint is reset after a slow logger, and the failing logger and the failing clock
  in the final report, with a destructor that is \<^verbatim>\<open>noexcept\<close> and with one that is not.\<close>

theorem capability_failures_witness:
  "fading_clock 2 3 = Thrown ''clock unavailable'' 3 \<and>
   log_msg exact_cast (fading_clock 2) ''work''
       \<lparr>destructionMessage = ''work'', start = 0, minTimeToLog = 0, logger = slow_logger 2\<rparr> 3 =
     Thrown ''clock unavailable''
       (\<lparr>destructionMessage = ''work'', start = 0, minTimeToLog = 0, logger = slow_logger 2\<rparr>,
        3) \<and>
   failing_logger ''work'' (exact_cast 1 0) 1 = Thrown ''sink unavailable'' 1 \<and>
   logImpl exact_cast fake_clock 1 ''work''
       \<lparr>destructionMessage = ''work'', start = 0, minTimeToLog = 0, logger = failing_logger\<rparr> 1 =
     Thrown ''sink unavailable''
       (\<lparr>destructionMessage = ''work'', start = 0, minTimeToLog = 0, logger = failing_logger\<rparr>,
        1) \<and>
   slow_logger 2 ''work'' (exact_cast 1 0) 1 = Ok () 3 \<and>
   logImpl exact_cast (fading_clock 2) 1 ''work''
       \<lparr>destructionMessage = ''work'', start = 0, minTimeToLog = 0, logger = slow_logger 2\<rparr> 1 =
     Thrown ''clock unavailable''
       (\<lparr>destructionMessage = ''work'', start = 0, minTimeToLog = 0, logger = slow_logger 2\<rparr>,
        3) \<and>
   logImpl exact_cast (observed_clock fake_clock) 1 ''work''
       \<lparr>destructionMessage = ''work'', start = 0, minTimeToLog = 0,
        logger = capturing silent_logger\<rparr> \<lparr>calls = [], env = 1\<rparr> =
     Ok 1 (\<lparr>destructionMessage = ''work'', start = 1, minTimeToLog = 0,
            logger = capturing silent_logger\<rparr>, \<lparr>calls = [(''work'', 1)], env = 1\<rparr>) \<and>
   fake_clock 1 = Ok 1 1 \<and>
   end_of_scope exact_cast True fake_clock
       (Ok ()
         ([\<lparr>destructionMessage = ''work'', start = 0, minTimeToLog = 0,
             logger = failing_logger\<rparr>], 1)) =
     Terminate \<and>
   end_of_scope exact_cast False fake_clock
       (Ok ()
         ([\<lparr>destructionMessage = ''work'', start = 0, minTimeToLog = 0,
             logger = failing_logger\<rparr>], 1)) =
     Thrown ''sink unavailable'' 1 \<and>
   end_of_scope exact_cast False fake_clock
       (Thrown ''failed''
         ([\<lparr>destructionMessage = ''work'', start = 0, minTimeToLog = 0,
             logger = failing_logger\<rparr>], 1)) =
     (Terminate :: (unit, string, real) result) \<and>
   end_of_scope exact_cast False (fading_clock 2)
       (Ok ()
         ([\<lparr>destructionMessage = ''work'', start = 0, minTimeToLog = 0,
             logger = slow_logger 2\<rparr>], 3)) =
     Thrown ''clock unavailable'' 3"
proof -
  let ?F = "\<lparr>destructionMessage = ''work'', start = 0, minTimeToLog = 0, logger = failing_logger\<rparr>"
  let ?S = "\<lparr>destructionMessage = ''work'', start = 0, minTimeToLog = 0, logger = slow_logger 2\<rparr>"
  let ?C = "\<lparr>destructionMessage = ''work'', start = 0, minTimeToLog = 0,
             logger = capturing silent_logger\<rparr>"
  let ?c = "\<lparr>calls = [], env = 1::real\<rparr>"
  note fails = capability_failures [where cast = exact_cast and msg = "''work''"]
  have clock_fails: "fading_clock 2 3 = Thrown ''clock unavailable'' 3"
    by (simp add: fading_clock_def)
  have clock_reads: "fake_clock 1 = Ok 1 1"
    by (simp add: fake_clock_def)
  have at_entry: "log_msg exact_cast (fading_clock 2) ''work'' ?S 3 =
      Thrown ''clock unavailable'' (?S, 3)"
    using fails [where clock = "fading_clock 2" and w = 3 and T = ?S,
        THEN conjunct1, rule_format, OF clock_fails] .
  have met: "minTimeToLog ?F \<le> exact_cast 1 (start ?F)"
    by (simp add: exact_cast_def)
  have logger_fails: "logger ?F ''work'' (exact_cast 1 (start ?F)) 1 = Thrown ''sink unavailable'' 1"
    by (simp add: failing_logger_def)
  have in_logger: "logImpl exact_cast fake_clock 1 ''work'' ?F 1 = Thrown ''sink unavailable'' (?F, 1)"
    using fails [where clock = fake_clock and T = ?F and now = 1 and w = 1,
        THEN conjunct2, THEN conjunct1, rule_format, OF met logger_fails] .
  have logged: "if minTimeToLog ?S \<le> exact_cast 1 (start ?S)
      then logger ?S ''work'' (exact_cast 1 (start ?S)) 1 = Ok () 3 else 3 = (1::real)"
    by (simp add: slow_logger_def exact_cast_def)
  have at_reset: "logImpl exact_cast (fading_clock 2) 1 ''work'' ?S 1 =
      Thrown ''clock unavailable'' (?S, 3)"
    using fails [where clock = "fading_clock 2" and T = ?S and now = 1 and w = 1,
        THEN conjunct2, THEN conjunct2, THEN conjunct1, rule_format, OF logged clock_fails] .
  have cause: "\<exists>v. (?F, 1::real) = (?F, v) \<and>
         ((minTimeToLog ?F \<le> exact_cast 1 (start ?F) \<and>
           logger ?F ''work'' (exact_cast 1 (start ?F)) 1 = Thrown ''sink unavailable'' v) \<or>
          (\<exists>v1. (if minTimeToLog ?F \<le> exact_cast 1 (start ?F)
                  then logger ?F ''work'' (exact_cast 1 (start ?F)) 1 = Ok () v1 else v1 = 1) \<and>
                 fake_clock v1 = Thrown ''sink unavailable'' v))"
    using fails [where clock = fake_clock and T = ?F and now = 1 and w = 1,
        THEN conjunct2, THEN conjunct2, THEN conjunct2, THEN conjunct1, rule_format,
        OF in_logger] .
  have once: "case logImpl exact_cast (observed_clock fake_clock) 1 ''work'' ?C ?c of
         Ok d (T', c') \<Rightarrow> length (calls c') \<le> length (calls ?c) + 1
       | Thrown x (T', c') \<Rightarrow> length (calls c') \<le> length (calls ?c) + 1
       | Terminate \<Rightarrow> True"
    using fails [where Tc = ?C and lg = silent_logger and clk = fake_clock,
        THEN conjunct2, THEN conjunct2, THEN conjunct2, THEN conjunct2, THEN conjunct1,
        rule_format] by simp
  have observed: "logImpl exact_cast (observed_clock fake_clock) 1 ''work'' ?C ?c =
      Ok 1 (?C\<lparr>start := 1\<rparr>, \<lparr>calls = [(''work'', 1)], env = 1\<rparr>)"
    by (simp add: logImpl_def Let_def observed_clock_def capturing_def
        fake_clock_def silent_logger_def exact_cast_def)
  have final_logger_fails: "logger ?F (destructionMessage ?F) (exact_cast 1 (start ?F)) 1 =
      Thrown ''sink unavailable'' 1"
    by (simp add: failing_logger_def)
  note final = fails [where clock = fake_clock and T = ?F and now = 1 and w = 1 and ?w0.0 = 1
      and a = "()" and ?e0.0 = "''failed''" and nx = False,
      THEN conjunct2, THEN conjunct2, THEN conjunct2, THEN conjunct2, THEN conjunct2,
      THEN conjunct1, rule_format, OF clock_reads met final_logger_fails]
  have ended: "end_of_scope exact_cast True fake_clock (Ok () ([?F], 1)) = Terminate"
    using final [THEN conjunct1] .
  have passed: "end_of_scope exact_cast False fake_clock (Ok () ([?F], 1)) =
      Thrown ''sink unavailable'' 1"
    using final [THEN conjunct2, THEN conjunct1] .
  have unwinding: "end_of_scope exact_cast False fake_clock (Thrown ''failed'' ([?F], 1)) =
      (Terminate :: (unit, string, real) result)"
    using final [THEN conjunct2, THEN conjunct2] .
  have final_at_entry: "log_msg exact_cast (fading_clock 2) (destructionMessage ?S) ?S 3 =
      Thrown ''clock unavailable'' (?S, 3)"
    using at_entry by simp
  have clock_passed: "end_of_scope exact_cast False (fading_clock 2) (Ok () ([?S], 3)) =
      Thrown ''clock unavailable'' 3"
    using fails [where clock = "fading_clock 2" and T = ?S and w = 3 and a = "()",
      THEN conjunct2, THEN conjunct2, THEN conjunct2, THEN conjunct2, THEN conjunct2,
      THEN conjunct2, rule_format, OF final_at_entry, THEN conjunct2, THEN conjunct1] .
  have plain: "failing_logger ''work'' (exact_cast 1 0) 1 = Thrown ''sink unavailable'' 1"
    "slow_logger 2 ''work'' (exact_cast 1 0) 1 = Ok () 3"
    by (simp_all add: failing_logger_def slow_logger_def)
  from clock_fails clock_reads at_entry in_logger at_reset observed ended passed unwinding
    clock_passed plain
  show ?thesis
    by simp
qed

end
